theory Spec2Isabelle
  imports Complex_Main
begin

section \<open>Python values used by \<open>st_test_lg_1.py\<close>\<close>

text \<open>
  The value \<open>response.json()\<close> returns: a parsed JSON document. Python's \<open>None\<close> and
  JSON's \<open>null\<close> are the same value, \<open>JNull\<close>. An object is the list of its members;
  a float is represented by its rational value.
\<close>

datatype json =
    JNull
  | JBool bool
  | JInt int
  | JFloat rat
  | JStr string
  | JArr "json list"
  | JObj "(string \<times> json) list"

text \<open>Python truthiness, as tested by \<open>if user_info:\<close> and \<open>if picture_url:\<close>.\<close>

fun truthy :: "json \<Rightarrow> bool" where
  "truthy JNull = False"
| "truthy (JBool b) = b"
| "truthy (JInt n) = (n \<noteq> 0)"
| "truthy (JFloat r) = (r \<noteq> 0)"
| "truthy (JStr s) = (s \<noteq> [])"
| "truthy (JArr xs) = (xs \<noteq> [])"
| "truthy (JObj kvs) = (kvs \<noteq> [])"

text \<open>
  Truthiness of an optional string (\<open>os.getenv\<close> results, the \<open>code\<close> parameter):
  \<open>None\<close> and the empty string are false.
\<close>

fun truthy_str :: "string option \<Rightarrow> bool" where
  "truthy_str None = False"
| "truthy_str (Some v) = (v \<noteq> [])"

text \<open>
  Exceptions. \<open>External msg\<close> is any \<open>Exception\<close> raised inside the OAuth or HTTP
  library, with \<open>str(e) = msg\<close>; these are the only ones that can occur inside the
  \<open>try\<close> block of \<open>main\<close>, so the only ones whose text is ever shown.
\<close>

datatype exn = IndexError | AttributeError | ConfigurationError | External string

fun str_exn :: "exn \<Rightarrow> string" where
  "str_exn IndexError = ''list index out of range''"
| "str_exn AttributeError = ''object has no attribute get''"
| "str_exn ConfigurationError = ''missing client id''"
| "str_exn (External msg) = msg"

text \<open>\<open>d.get(k, default)\<close>: only a dict has the method.\<close>

fun py_get :: "json \<Rightarrow> string \<Rightarrow> json \<Rightarrow> exn + json" where
  "py_get (JObj kvs) k dflt = Inr (case map_of kvs k of None \<Rightarrow> dflt | Some v \<Rightarrow> v)"
| "py_get _ k dflt = Inl AttributeError"

section \<open>Process configuration (lines 11--18)\<close>

type_synonym environ = "string \<rightharpoonup> string"

definition CLIENT_ID :: "environ \<Rightarrow> string option" where
  "CLIENT_ID environ = environ ''GOOGLE_CLIENT_ID''"

definition CLIENT_SECRET :: "environ \<Rightarrow> string option" where
  "CLIENT_SECRET environ = environ ''GOOGLE_CLIENT_SECRET''"

definition REDIRECT_URI :: "environ \<Rightarrow> string" where
  "REDIRECT_URI environ =
     (case environ ''REDIRECT_URI'' of
        None \<Rightarrow> ''https://your-app-name.streamlit.app''
      | Some v \<Rightarrow> v)"

definition SCOPES :: "string list" where
  "SCOPES = [''openid'', ''https://www.googleapis.com/auth/userinfo.email'',
             ''https://www.googleapis.com/auth/userinfo.profile'']"

section \<open>Session state (lines 20--24)\<close>

datatype cred_value = CNone | CStr string | CList "string list"

text \<open>
  \<open>st.session_state.credentials\<close> is not initialised at start-up: the attribute is
  \<open>Unset\<close> until \<open>main\<close> stores a dict or \<open>sign_out\<close> stores \<open>None\<close>.
\<close>

datatype cred_slot = Unset | PyNone | CredDict "(string \<times> cred_value) list"

record session_state =
  user_info :: json
  is_authenticated :: bool
  credentials :: cred_slot

definition initial_session :: session_state where
  "initial_session = \<lparr>user_info = JNull, is_authenticated = False, credentials = Unset\<rparr>"

section \<open>The OAuth flow object and the outside world\<close>

record Flow =
  client_id :: "string option"
  client_secret :: "string option"
  auth_uri :: string
  token_uri :: string
  redirect_uris :: "string list"
  scopes :: "string list"
  redirect_uri :: string

text \<open>The \<open>Credentials\<close> object \<open>flow.credentials\<close> yields after a token exchange.\<close>

record Credentials =
  token :: string
  refresh_token :: "string option"
  cred_token_uri :: string
  cred_client_id :: string
  cred_client_secret :: string
  cred_scopes :: "string list"

record response =
  status_code :: int
  json :: "exn + json"

text \<open>
  What the program cannot decide itself: the answer of the token endpoint to
  \<open>flow.fetch_token(code=code)\<close> (an exception or the resulting credentials), the answer
  to \<open>requests.get(url, headers)\<close> (an exception or a response, whose \<open>json()\<close> may
  raise in turn), and the random \<open>state\<close> token the OAuth library draws when it builds
  an authorization URL.
\<close>

record env =
  fetch_token :: "Flow \<Rightarrow> string \<Rightarrow> exn + Credentials"
  requests_get :: "string \<Rightarrow> string \<Rightarrow> exn + response"
  new_state :: string

text \<open>Outbound network calls, in the order they are attempted.\<close>

datatype call = TokenExchange string | UserInfoGet string

section \<open>URL building\<close>

text \<open>
  Modelled from the spec: the URL escaping of the OAuth client library, which is not
  under \<open>src/\<close>. The specification only says that parameter values are URL-escaped;
  this is the usual form encoding: letters, digits and \<open>_.-~\<close> are kept, a space
  becomes \<open>+\<close>, every other byte becomes \<open>%\<close> and two hexadecimal digits, and the
  encoded \<open>key=value\<close> pairs are joined by \<open>&\<close>.
\<close>

definition unreserved :: "char \<Rightarrow> bool" where
  "unreserved c \<longleftrightarrow>
     c \<in> set ''ABCDEFGHIJKLMNOPQRSTUVWXYZabcdefghijklmnopqrstuvwxyz0123456789_.-~''"

definition hex_digit :: "nat \<Rightarrow> char" where
  "hex_digit n = ''0123456789ABCDEF'' ! (n mod 16)"

definition quote_char :: "char \<Rightarrow> string" where
  "quote_char c =
     (if unreserved c then [c]
      else if c = CHR '' '' then ''+''
      else [CHR ''%'', hex_digit (of_char c div 16), hex_digit (of_char c)])"

definition quote_plus :: "string \<Rightarrow> string" where
  "quote_plus s = concat (map quote_char s)"

fun join :: "string \<Rightarrow> string list \<Rightarrow> string" where
  "join sep [] = []"
| "join sep [x] = x"
| "join sep (x # y # ys) = x @ sep @ join sep (y # ys)"

definition encode_param :: "string \<times> string \<Rightarrow> string" where
  "encode_param kv = quote_plus (fst kv) @ ''='' @ quote_plus (snd kv)"

definition urlencode :: "(string \<times> string) list \<Rightarrow> string" where
  "urlencode params = join ''&'' (map encode_param params)"

text \<open>
  Modelled from the spec: \<open>Flow.authorization_url\<close> of the OAuth client library, which
  \<open>src/\<close> calls but does not contain. Following section 4.1 of the specification it
  emits \<open>response_type=code\<close>, \<open>client_id\<close>, \<open>redirect_uri\<close>, \<open>scope\<close> (the scopes
  joined by a space) and \<open>state\<close>, then the caller's keyword arguments, URL-escaped,
  and fails only when the client id is missing. It returns the URL and the state.
\<close>

definition authorization_url ::
  "Flow \<Rightarrow> (string \<times> string) list \<Rightarrow> string \<Rightarrow> exn + (string \<times> string)" where
  "authorization_url flow kwargs st =
     (if \<not> truthy_str (client_id flow) then Inl ConfigurationError
      else Inr (auth_uri flow @ ''?'' @
                urlencode ([(''response_type'', ''code''),
                            (''client_id'', the (client_id flow)),
                            (''redirect_uri'', redirect_uri flow),
                            (''scope'', join '' '' (scopes flow)),
                            (''state'', st)] @ kwargs), st))"

section \<open>The program\<close>

definition create_flow :: "environ \<Rightarrow> Flow" where
  "create_flow environ =
     \<lparr>client_id = CLIENT_ID environ,
      client_secret = CLIENT_SECRET environ,
      auth_uri = ''https://accounts.google.com/o/oauth2/auth'',
      token_uri = ''https://oauth2.googleapis.com/token'',
      redirect_uris = [REDIRECT_URI environ],
      scopes = SCOPES,
      redirect_uri = REDIRECT_URI environ\<rparr>"

definition get_authorization_url :: "environ \<Rightarrow> env \<Rightarrow> exn + string" where
  "get_authorization_url environ e =
     (case authorization_url (create_flow environ)
             [(''access_type'', ''offline''),
              (''include_granted_scopes'', ''true''),
              (''prompt'', ''consent'')]
             (new_state e) of
        Inl err \<Rightarrow> Inl err
      | Inr (url, state) \<Rightarrow> Inr url)"

definition exchange_code_for_token :: "environ \<Rightarrow> env \<Rightarrow> string \<Rightarrow> exn + Credentials" where
  "exchange_code_for_token environ e code = fetch_token e (create_flow environ) code"

definition get_user_info :: "env \<Rightarrow> Credentials \<Rightarrow> exn + json" where
  "get_user_info e creds =
     (case requests_get e ''https://www.googleapis.com/oauth2/v2/userinfo''
             (''Bearer '' @ token creds) of
        Inl err \<Rightarrow> Inl err
      | Inr resp \<Rightarrow> if status_code resp = 200 then json resp else Inr JNull)"

definition sign_out :: "session_state \<Rightarrow> session_state" where
  "sign_out s = s\<lparr>user_info := JNull, is_authenticated := False, credentials := PyNone\<rparr>"

text \<open>
  What a run renders through \<open>st\<close>. Text that carries no data (the development hint,
  the sign-in blurb, the button markup) is a constructor of its own; an f-string is
  kept as the value it interpolates.
\<close>

datatype ui_event =
    Title string
  | Error string
  | Info_dev_hint
  | Spinner string
  | Write string
  | Write_welcome json
  | Image json
  | Write_email json
  | Write_google_id json
  | Button_sign_out
  | Markdown_sign_in_blurb
  | Markdown_login_button string

definition display_user_info :: "session_state \<Rightarrow> ui_event list \<times> exn option" where
  "display_user_info s =
     (if truthy (user_info s) then
        (case py_get (user_info s) ''name'' (JStr ''User'') of
           Inl err \<Rightarrow> ([], Some err)
         | Inr name \<Rightarrow>
           (case py_get (user_info s) ''picture'' JNull of
              Inl err \<Rightarrow> ([Write_welcome name], Some err)
            | Inr picture_url \<Rightarrow>
              (case py_get (user_info s) ''email'' (JStr ''Not available'') of
                 Inl err \<Rightarrow>
                   ([Write_welcome name] @ (if truthy picture_url then [Image picture_url] else []),
                    Some err)
               | Inr email \<Rightarrow>
                 (case py_get (user_info s) ''id'' (JStr ''Not available'') of
                    Inl err \<Rightarrow>
                      ([Write_welcome name]
                         @ (if truthy picture_url then [Image picture_url] else [])
                         @ [Write_email email], Some err)
                  | Inr gid \<Rightarrow>
                      ([Write_welcome name]
                         @ (if truthy picture_url then [Image picture_url] else [])
                         @ [Write_email email, Write_google_id gid, Button_sign_out], None)))))
      else ([Error ''User information is not available.''], None))"

text \<open>
  How a run of \<open>main\<close> ends: it returns, it asks for a rerun
  (\<open>st.experimental_rerun()\<close>, which \<open>except Exception\<close> does not catch), or an
  exception escapes it.
\<close>

datatype ending = Returned | Rerun | Raised exn

record result =
  session :: session_state
  calls :: "call list"
  ui :: "ui_event list"
  params_cleared :: bool
  ending :: ending

type_synonym query_params = "string \<rightharpoonup> string list"

text \<open>\<open>query_params.get("code", [None])[0]\<close>\<close>

definition code_param :: "query_params \<Rightarrow> exn + string option" where
  "code_param query_params =
     (case query_params ''code'' of
        None \<Rightarrow> Inr None
      | Some [] \<Rightarrow> Inl IndexError
      | Some (c # cs) \<Rightarrow> Inr (Some c))"

definition credentials_dict :: "Credentials \<Rightarrow> (string \<times> cred_value) list" where
  "credentials_dict creds =
     [(''token'', CStr (token creds)),
      (''refresh_token'', (case refresh_token creds of None \<Rightarrow> CNone | Some r \<Rightarrow> CStr r)),
      (''token_uri'', CStr (cred_token_uri creds)),
      (''client_id'', CStr (cred_client_id creds)),
      (''client_secret'', CStr (cred_client_secret creds)),
      (''scopes'', CList (cred_scopes creds))]"

text \<open>Lines 107--112: the configuration is incomplete.\<close>

definition config_error_page :: "session_state \<Rightarrow> result" where
  "config_error_page s =
     \<lparr>session = s, calls = [],
      ui = [Error ''Google OAuth credentials are not set. Please set the GOOGLE_CLIENT_ID and GOOGLE_CLIENT_SECRET environment variables.'',
            Info_dev_hint],
      params_cleared = False, ending = Returned\<rparr>"

text \<open>Lines 119--124: the user is signed in.\<close>

definition profile_page :: "session_state \<Rightarrow> result" where
  "profile_page s =
     (case display_user_info s of
        (shown, Some err) \<Rightarrow>
          \<lparr>session = s, calls = [], ui = shown, params_cleared = False,
           ending = Raised err\<rparr>
      | (shown, None) \<Rightarrow>
          \<lparr>session = s, calls = [],
           ui = shown @ [Write ''## Your Application Content'',
                         Write ''This is the protected area of your application.''],
           params_cleared = False, ending = Returned\<rparr>)"

text \<open>Lines 127--151: a code arrived; exchange it and fetch the profile.\<close>

definition complete_authentication ::
  "environ \<Rightarrow> env \<Rightarrow> string \<Rightarrow> session_state \<Rightarrow> result" where
  "complete_authentication environ e code s =
     (let spinner = Spinner ''Completing authentication...'' in
      case exchange_code_for_token environ e code of
        Inl err \<Rightarrow>
          \<lparr>session = s, calls = [TokenExchange code],
           ui = [spinner, Error (''Authentication error: '' @ str_exn err)],
           params_cleared = False, ending = Returned\<rparr>
      | Inr creds \<Rightarrow>
          (case get_user_info e creds of
             Inl err \<Rightarrow>
               \<lparr>session = s, calls = [TokenExchange code, UserInfoGet (token creds)],
                ui = [spinner, Error (''Authentication error: '' @ str_exn err)],
                params_cleared = False, ending = Returned\<rparr>
           | Inr info \<Rightarrow>
               if truthy info then
                 \<lparr>session = s\<lparr>user_info := info, is_authenticated := True,
                               credentials := CredDict (credentials_dict creds)\<rparr>,
                  calls = [TokenExchange code, UserInfoGet (token creds)],
                  ui = [spinner],
                  params_cleared = True, ending = Rerun\<rparr>
               else
                 \<lparr>session = s, calls = [TokenExchange code, UserInfoGet (token creds)],
                  ui = [spinner, Error ''Failed to get user information.''],
                  params_cleared = False, ending = Returned\<rparr>))"

text \<open>Lines 154--186: nobody is signed in and no code arrived.\<close>

definition login_page :: "environ \<Rightarrow> env \<Rightarrow> session_state \<Rightarrow> result" where
  "login_page environ e s =
     (case get_authorization_url environ e of
        Inl err \<Rightarrow>
          \<lparr>session = s, calls = [],
           ui = [Write ''### Please sign in to continue'', Markdown_sign_in_blurb],
           params_cleared = False, ending = Raised err\<rparr>
      | Inr auth_url \<Rightarrow>
          \<lparr>session = s, calls = [],
           ui = [Write ''### Please sign in to continue'', Markdown_sign_in_blurb,
                 Markdown_login_button auth_url,
                 Write ''You will be redirected to Google for authentication.''],
           params_cleared = False, ending = Returned\<rparr>)"

text \<open>
  \<open>main\<close>: the title is written first, then one of the branches runs. An empty
  \<open>code\<close> is falsy, as a missing one is.
\<close>

definition main :: "environ \<Rightarrow> env \<Rightarrow> query_params \<Rightarrow> session_state \<Rightarrow> result" where
  "main environ e query_params s =
     (let r =
        (if \<not> truthy_str (CLIENT_ID environ) \<or> \<not> truthy_str (CLIENT_SECRET environ) then
           config_error_page s
         else
           (case code_param query_params of
              Inl err \<Rightarrow>
                \<lparr>session = s, calls = [], ui = [], params_cleared = False,
                 ending = Raised err\<rparr>
            | Inr code \<Rightarrow>
                if is_authenticated s \<and> truthy (user_info s) then profile_page s
                else
                  (case code of
                     None \<Rightarrow> login_page environ e s
                   | Some c \<Rightarrow>
                       if c \<noteq> [] then complete_authentication environ e c s
                       else login_page environ e s)))
      in r\<lparr>ui := Title ''Streamlit Google Authentication'' # ui r\<rparr>)"

text \<open>Whether the session counts as signed in: the test of line 119.\<close>

definition authenticated :: "session_state \<Rightarrow> bool" where
  "authenticated s \<longleftrightarrow> is_authenticated s \<and> truthy (user_info s)"

section \<open>Sessions over time\<close>

text \<open>
  The two operations that touch the session: a run of \<open>main\<close> (under some process
  configuration, some answers of the outside world and some request) and the
  \<open>sign_out\<close> callback.
\<close>

datatype op = Main environ env query_params | SignOut

fun apply_op :: "session_state \<Rightarrow> op \<Rightarrow> session_state" where
  "apply_op s (Main environ e query_params) = session (main environ e query_params s)"
| "apply_op s SignOut = sign_out s"

definition run_ops :: "op list \<Rightarrow> session_state" where
  "run_ops ops = foldl apply_op initial_session ops"

section \<open>A concrete provider\<close>

text \<open>
  A provider that accepts the code \<open>4/abc\<close>, grants access token \<open>tok123\<close> and refresh
  token \<open>ref456\<close>, and serves Ada's profile to the bearer of that access token.
\<close>

definition ada_credentials :: Credentials where
  "ada_credentials =
     \<lparr>token = ''tok123'', refresh_token = Some ''ref456'',
      cred_token_uri = ''https://oauth2.googleapis.com/token'',
      cred_client_id = ''cid'', cred_client_secret = ''sec'',
      cred_scopes = SCOPES\<rparr>"

definition ada_profile :: json where
  "ada_profile =
     JObj [(''id'', JStr ''42''), (''name'', JStr ''Ada''), (''email'', JStr ''a@x.com'')]"

definition ada_env :: env where
  "ada_env =
     \<lparr>fetch_token = (\<lambda>flow code. if code = ''4/abc'' then Inr ada_credentials
                                   else Inl (External ''invalid_grant'')),
      requests_get = (\<lambda>url auth. if auth = ''Bearer tok123''
                                  then Inr \<lparr>status_code = 200, json = Inr ada_profile\<rparr>
                                  else Inr \<lparr>status_code = 401, json = Inr JNull\<rparr>),
      new_state = ''s3cr3t''\<rparr>"

definition ada_environ :: environ where
  "ada_environ = [''GOOGLE_CLIENT_ID'' \<mapsto> ''cid'', ''GOOGLE_CLIENT_SECRET'' \<mapsto> ''sec'']"

text \<open>The same provider with a user-info endpoint that is down.\<close>

definition failing_fetch_env :: env where
  "failing_fetch_env =
     ada_env\<lparr>requests_get :=
       (\<lambda>url auth. Inr \<lparr>status_code = 503, json = Inl (External ''Expecting value'')\<rparr>)\<rparr>"

text \<open>
  The same provider answering the user-info request with \<open>200\<close> and the empty object,
  and with \<open>200\<close> and an object that has a name but no id.
\<close>

definition empty_profile_env :: env where
  "empty_profile_env =
     ada_env\<lparr>requests_get := (\<lambda>url auth. Inr \<lparr>status_code = 200, json = Inr (JObj [])\<rparr>)\<rparr>"

definition nameless_id_env :: env where
  "nameless_id_env =
     ada_env\<lparr>requests_get :=
       (\<lambda>url auth. Inr \<lparr>status_code = 200, json = Inr (JObj [(''name'', JStr ''Ada'')])\<rparr>)\<rparr>"

text \<open>The same provider answering the user-info request with \<open>200\<close> and a body that is not JSON.\<close>

definition malformed_body_env :: env where
  "malformed_body_env =
     ada_env\<lparr>requests_get :=
       (\<lambda>url auth. Inr \<lparr>status_code = 200, json = Inl (External ''Expecting value'')\<rparr>)\<rparr>"

section \<open>The branches of \<open>main\<close>\<close>

lemma complete_authentication_cases:
  "(\<exists>creds info. exchange_code_for_token environ e code = Inr creds \<and>
      get_user_info e creds = Inr info \<and> truthy info \<and>
      complete_authentication environ e code s =
        \<lparr>session = s\<lparr>user_info := info, is_authenticated := True,
                      credentials := CredDict (credentials_dict creds)\<rparr>,
         calls = [TokenExchange code, UserInfoGet (token creds)],
         ui = [Spinner ''Completing authentication...''],
         params_cleared = True, ending = Rerun\<rparr>)
   \<or> (session (complete_authentication environ e code s) = s
       \<and> ending (complete_authentication environ e code s) = Returned)"
  by (simp add: complete_authentication_def Let_def split: sum.splits)

lemma complete_authentication_success:
  assumes "exchange_code_for_token environ e code = Inr creds"
    and "get_user_info e creds = Inr info" and "truthy info"
  shows "complete_authentication environ e code s =
        \<lparr>session = s\<lparr>user_info := info, is_authenticated := True,
                      credentials := CredDict (credentials_dict creds)\<rparr>,
         calls = [TokenExchange code, UserInfoGet (token creds)],
         ui = [Spinner ''Completing authentication...''],
         params_cleared = True, ending = Rerun\<rparr>"
  using assms by (simp add: complete_authentication_def)

lemma complete_authentication_exchange_failed:
  assumes "exchange_code_for_token environ e code = Inl err"
  shows "complete_authentication environ e code s =
          \<lparr>session = s, calls = [TokenExchange code],
           ui = [Spinner ''Completing authentication...'',
                 Error (''Authentication error: '' @ str_exn err)],
           params_cleared = False, ending = Returned\<rparr>"
  using assms by (simp add: complete_authentication_def)

lemma complete_authentication_fetch_raised:
  assumes "exchange_code_for_token environ e code = Inr creds"
    and "get_user_info e creds = Inl err"
  shows "complete_authentication environ e code s =
          \<lparr>session = s, calls = [TokenExchange code, UserInfoGet (token creds)],
           ui = [Spinner ''Completing authentication...'',
                 Error (''Authentication error: '' @ str_exn err)],
           params_cleared = False, ending = Returned\<rparr>"
  using assms by (simp add: complete_authentication_def)

lemma complete_authentication_fetch_empty:
  assumes "exchange_code_for_token environ e code = Inr creds"
    and "get_user_info e creds = Inr info" and "\<not> truthy info"
  shows "complete_authentication environ e code s =
          \<lparr>session = s, calls = [TokenExchange code, UserInfoGet (token creds)],
           ui = [Spinner ''Completing authentication...'',
                 Error ''Failed to get user information.''],
           params_cleared = False, ending = Returned\<rparr>"
  using assms by (simp add: complete_authentication_def)

lemma session_profile_page: "session (profile_page s) = s"
  by (simp add: profile_page_def split: prod.splits option.splits)

lemma session_login_page: "session (login_page environ e s) = s"
  by (simp add: login_page_def split: sum.splits)

lemma calls_profile_page: "calls (profile_page s) = []"
  by (simp add: profile_page_def split: prod.splits option.splits)

lemma calls_login_page: "calls (login_page environ e s) = []"
  by (simp add: login_page_def split: sum.splits)

lemma get_authorization_url_ok:
  assumes "truthy_str (CLIENT_ID environ)"
  shows "\<exists>url. get_authorization_url environ e = Inr url"
  using assms by (simp add: get_authorization_url_def authorization_url_def create_flow_def)

lemma login_page_ok:
  assumes "truthy_str (CLIENT_ID environ)"
  shows "\<exists>url. login_page environ e s =
          \<lparr>session = s, calls = [],
           ui = [Write ''### Please sign in to continue'', Markdown_sign_in_blurb,
                 Markdown_login_button url,
                 Write ''You will be redirected to Google for authentication.''],
           params_cleared = False, ending = Returned\<rparr>"
  using get_authorization_url_ok [OF assms, of e] by (auto simp add: login_page_def)

text \<open>The dispatch of \<open>main\<close>, one lemma per branch.\<close>

lemma main_exchanging:
  assumes "truthy_str (CLIENT_ID environ)" and "truthy_str (CLIENT_SECRET environ)"
    and "\<not> authenticated s" and "code_param query_params = Inr (Some code)" and "code \<noteq> []"
  shows "main environ e query_params s =
     (complete_authentication environ e code s)
       \<lparr>ui := Title ''Streamlit Google Authentication''
               # ui (complete_authentication environ e code s)\<rparr>"
  using assms by (auto simp add: main_def Let_def authenticated_def)

lemma main_login:
  assumes "truthy_str (CLIENT_ID environ)" and "truthy_str (CLIENT_SECRET environ)"
    and "\<not> authenticated s"
    and "code_param query_params = Inr None \<or> code_param query_params = Inr (Some [])"
  shows "main environ e query_params s =
     (login_page environ e s)
       \<lparr>ui := Title ''Streamlit Google Authentication'' # ui (login_page environ e s)\<rparr>"
  using assms by (auto simp add: main_def Let_def authenticated_def)

lemma main_profile:
  assumes "truthy_str (CLIENT_ID environ)" and "truthy_str (CLIENT_SECRET environ)"
    and "authenticated s" and "code_param query_params = Inr code"
  shows "main environ e query_params s =
     (profile_page s)\<lparr>ui := Title ''Streamlit Google Authentication'' # ui (profile_page s)\<rparr>"
  using assms by (simp add: main_def Let_def authenticated_def)

lemma main_authenticated_session:
  assumes "authenticated s"
  shows "session (main environ e query_params s) = s \<and> calls (main environ e query_params s) = []"
  using assms
  by (simp add: main_def Let_def authenticated_def config_error_page_def session_profile_page
      calls_profile_page split: sum.splits)

lemma main_session_changed:
  assumes "session (main environ e query_params s) \<noteq> s"
  shows "\<exists>code creds info.
      truthy_str (CLIENT_ID environ) \<and> truthy_str (CLIENT_SECRET environ) \<and>
      \<not> authenticated s \<and> code_param query_params = Inr (Some code) \<and> code \<noteq> [] \<and>
      exchange_code_for_token environ e code = Inr creds \<and>
      get_user_info e creds = Inr info \<and> truthy info \<and>
      main environ e query_params s =
        \<lparr>session = s\<lparr>user_info := info, is_authenticated := True,
                      credentials := CredDict (credentials_dict creds)\<rparr>,
         calls = [TokenExchange code, UserInfoGet (token creds)],
         ui = [Title ''Streamlit Google Authentication'',
               Spinner ''Completing authentication...''],
         params_cleared = True, ending = Rerun\<rparr>"
proof -
  have cfg: "truthy_str (CLIENT_ID environ) \<and> truthy_str (CLIENT_SECRET environ)"
  proof (rule ccontr)
    assume "\<not> (truthy_str (CLIENT_ID environ) \<and> truthy_str (CLIENT_SECRET environ))"
    then have "session (main environ e query_params s) = s"
      by (auto simp add: main_def Let_def config_error_page_def)
    with assms show False by simp
  qed
  have unauth: "\<not> authenticated s"
    using assms main_authenticated_session by blast
  obtain code where code: "code_param query_params = Inr (Some code)" "code \<noteq> []"
    using assms cfg unauth
    by (auto simp add: main_def Let_def authenticated_def session_login_page
        split: sum.splits option.splits if_splits)
  have m: "main environ e query_params s =
     (complete_authentication environ e code s)
       \<lparr>ui := Title ''Streamlit Google Authentication''
               # ui (complete_authentication environ e code s)\<rparr>"
    using cfg unauth code by (simp add: main_exchanging)
  with assms have "session (complete_authentication environ e code s) \<noteq> s" by simp
  with complete_authentication_cases [of environ e code s]
  obtain creds info where "exchange_code_for_token environ e code = Inr creds"
      "get_user_info e creds = Inr info" "truthy info"
      "complete_authentication environ e code s =
        \<lparr>session = s\<lparr>user_info := info, is_authenticated := True,
                      credentials := CredDict (credentials_dict creds)\<rparr>,
         calls = [TokenExchange code, UserInfoGet (token creds)],
         ui = [Spinner ''Completing authentication...''],
         params_cleared = True, ending = Rerun\<rparr>"
    by blast
  with m cfg unauth code show ?thesis by simp
qed

lemma calls_complete_authentication:
  "TokenExchange c \<in> set (calls (complete_authentication environ e code s)) \<Longrightarrow> c = code"
  by (simp add: complete_authentication_def Let_def split: sum.splits if_splits)

lemma main_never_exchanges_empty_code:
  "TokenExchange [] \<notin> set (calls (main environ e query_params s))"
  by (auto simp add: main_def Let_def config_error_page_def calls_profile_page calls_login_page
      split: sum.splits option.splits dest: calls_complete_authentication)

text \<open>The invariant of the session, kept by every operation.\<close>

lemma credentials_dict_nonempty: "credentials_dict creds \<noteq> []"
  by (simp add: credentials_dict_def)

lemma apply_op_keeps_invariant:
  assumes "is_authenticated s \<longrightarrow>
             truthy (user_info s) \<and> (\<exists>d. credentials s = CredDict d \<and> d \<noteq> [])"
  shows "is_authenticated (apply_op s op) \<longrightarrow>
           truthy (user_info (apply_op s op))
           \<and> (\<exists>d. credentials (apply_op s op) = CredDict d \<and> d \<noteq> [])"
proof (cases op)
  case SignOut
  then show ?thesis by (simp add: sign_out_def)
next
  case (Main environ e query_params)
  show ?thesis
  proof (cases "session (main environ e query_params s) = s")
    case True
    with Main assms show ?thesis by simp
  next
    case False
    from main_session_changed [OF False] obtain code creds info where
      "truthy info"
      "main environ e query_params s =
        \<lparr>session = s\<lparr>user_info := info, is_authenticated := True,
                      credentials := CredDict (credentials_dict creds)\<rparr>,
         calls = [TokenExchange code, UserInfoGet (token creds)],
         ui = [Title ''Streamlit Google Authentication'',
               Spinner ''Completing authentication...''],
         params_cleared = True, ending = Rerun\<rparr>"
      by blast
    then have "session (main environ e query_params s) =
       s\<lparr>user_info := info, is_authenticated := True,
         credentials := CredDict (credentials_dict creds)\<rparr>" by simp
    with Main \<open>truthy info\<close> show ?thesis
      by (simp add: credentials_dict_nonempty)
  qed
qed

lemma foldl_apply_op_keeps_invariant:
  assumes "is_authenticated s \<longrightarrow>
             truthy (user_info s) \<and> (\<exists>d. credentials s = CredDict d \<and> d \<noteq> [])"
  shows "is_authenticated (foldl apply_op s ops) \<longrightarrow>
           truthy (user_info (foldl apply_op s ops))
           \<and> (\<exists>d. credentials (foldl apply_op s ops) = CredDict d \<and> d \<noteq> [])"
  using assms
proof (induction ops arbitrary: s)
  case Nil
  then show ?case by simp
next
  case (Cons op ops)
  from Cons.IH [OF apply_op_keeps_invariant [OF Cons.prems, of op]]
  show ?case by simp
qed

text \<open>URL escaping of plain text, and what \<open>main\<close> does not read.\<close>

lemma quote_plus_plain: "\<forall>c \<in> set s. unreserved c \<Longrightarrow> quote_plus s = s"
  by (induction s) (simp_all add: quote_plus_def quote_char_def)

lemma encode_param_plain:
  "\<forall>c \<in> set k. unreserved c \<Longrightarrow> \<forall>c \<in> set v. unreserved c \<Longrightarrow> encode_param (k, v) = k @ ''='' @ v"
  by (simp add: encode_param_def quote_plus_plain)

lemma encode_param_key:
  "\<forall>c \<in> set k. unreserved c \<Longrightarrow> encode_param (k, v) = k @ ''='' @ quote_plus v"
  by (simp add: encode_param_def quote_plus_plain)

lemma code_param_ignores_state:
  "code_param (query_params(''state'' := v)) = code_param query_params"
  by (simp add: code_param_def)

lemma main_ignores_state:
  "main environ e (query_params(''state'' := v)) s = main environ e query_params s"
  by (simp add: main_def code_param_ignores_state)

lemma main_without_code_session:
  assumes "code_param query_params = Inr None"
  shows "session (main environ e query_params s) = s"
proof (rule ccontr)
  assume "session (main environ e query_params s) \<noteq> s"
  from main_session_changed [OF this] assms show False by auto
qed

text \<open>Facts about the concrete provider.\<close>

lemma ada_config: "truthy_str (CLIENT_ID ada_environ)" "truthy_str (CLIENT_SECRET ada_environ)"
  by (simp_all add: ada_environ_def CLIENT_ID_def CLIENT_SECRET_def)

lemma initial_unauthenticated: "\<not> authenticated initial_session"
  by (simp add: authenticated_def initial_session_def)

lemma code_param_single: "code_param [''code'' \<mapsto> [c]] = Inr (Some c)"
  by (simp add: code_param_def)

lemma ada_exchange: "exchange_code_for_token ada_environ ada_env ''4/abc'' = Inr ada_credentials"
  by (simp add: exchange_code_for_token_def ada_env_def)

lemma ada_fetch: "get_user_info ada_env ada_credentials = Inr ada_profile"
  by (simp add: get_user_info_def ada_env_def ada_credentials_def)

lemma ada_profile_truthy: "truthy ada_profile"
  by (simp add: ada_profile_def)

lemma signed_out_unauthenticated: "\<not> authenticated (sign_out s)"
  by (simp add: sign_out_def authenticated_def)

lemma ada_sign_in:
  "main ada_environ ada_env [''code'' \<mapsto> [''4/abc'']] initial_session =
     \<lparr>session = initial_session\<lparr>user_info := ada_profile, is_authenticated := True,
                     credentials := CredDict (credentials_dict ada_credentials)\<rparr>,
      calls = [TokenExchange ''4/abc'', UserInfoGet (token ada_credentials)],
      ui = [Title ''Streamlit Google Authentication'',
            Spinner ''Completing authentication...''],
      params_cleared = True, ending = Rerun\<rparr>"
proof -
  have "main ada_environ ada_env [''code'' \<mapsto> [''4/abc'']] initial_session =
     (complete_authentication ada_environ ada_env ''4/abc'' initial_session)
       \<lparr>ui := Title ''Streamlit Google Authentication''
               # ui (complete_authentication ada_environ ada_env ''4/abc'' initial_session)\<rparr>"
    by (rule main_exchanging) (simp_all add: ada_config initial_unauthenticated code_param_single)
  then show ?thesis
    by (simp add: complete_authentication_success [OF ada_exchange ada_fetch ada_profile_truthy])
qed

lemma ada_signed_in:
  "authenticated (initial_session\<lparr>user_info := ada_profile, is_authenticated := True,
                     credentials := CredDict (credentials_dict ada_credentials)\<rparr>)"
  by (simp add: authenticated_def ada_profile_truthy)

lemma ada_redirect_uri: "REDIRECT_URI ada_environ = ''https://your-app-name.streamlit.app''"
  by (simp add: REDIRECT_URI_def ada_environ_def)

lemma quote_plus_redirect:
  "quote_plus ''https://your-app-name.streamlit.app''
     = ''https%3A%2F%2Fyour-app-name.streamlit.app''"
  by code_simp

lemma quote_plus_scopes:
  "quote_plus (join '' '' SCOPES)
     = ''openid+https%3A%2F%2Fwww.googleapis.com%2Fauth%2Fuserinfo.email+https%3A%2F%2Fwww.googleapis.com%2Fauth%2Fuserinfo.profile''"
  by code_simp

lemma quote_plus_cid: "quote_plus ''cid'' = ''cid''"
  by code_simp

section \<open>Sign-out\<close>

text \<open>
  C7. \<open>sign_out\<close> takes the session and nothing else (it has no access to the network)
  and is total; from any session it yields the signed-out session, with profile and
  credentials discarded, and doing it twice is the same as doing it once.
\<close>

theorem sign_out_resets:
  "sign_out s = \<lparr>user_info = JNull, is_authenticated = False, credentials = PyNone\<rparr>
   \<and> \<not> authenticated (sign_out s)
   \<and> sign_out (sign_out s) = sign_out s"
  by (simp add: sign_out_def authenticated_def)

section \<open>Missing configuration\<close>

text \<open>
  C6. When the client id or the client secret is absent from the process environment
  or empty, \<open>main\<close> shows the configuration error and returns: the session is as it
  was and no outbound call was attempted, whatever the request and the session.
\<close>

theorem main_config_error:
  assumes "environ ''GOOGLE_CLIENT_ID'' = None \<or> environ ''GOOGLE_CLIENT_ID'' = Some []
           \<or> environ ''GOOGLE_CLIENT_SECRET'' = None
           \<or> environ ''GOOGLE_CLIENT_SECRET'' = Some []"
  shows "main environ e query_params s =
     \<lparr>session = s, calls = [],
      ui = [Title ''Streamlit Google Authentication'',
            Error ''Google OAuth credentials are not set. Please set the GOOGLE_CLIENT_ID and GOOGLE_CLIENT_SECRET environment variables.'',
            Info_dev_hint],
      params_cleared = False, ending = Returned\<rparr>"
proof -
  from assms have "\<not> truthy_str (CLIENT_ID environ) \<or> \<not> truthy_str (CLIENT_SECRET environ)"
    by (auto simp add: CLIENT_ID_def CLIENT_SECRET_def)
  then show ?thesis
    by (auto simp add: main_def config_error_page_def)
qed

theorem main_config_error_witness:
  "main (ada_environ(''GOOGLE_CLIENT_SECRET'' \<mapsto> '''')) ada_env [''code'' \<mapsto> [''4/abc'']] initial_session =
     \<lparr>session = initial_session, calls = [],
      ui = [Title ''Streamlit Google Authentication'',
            Error ''Google OAuth credentials are not set. Please set the GOOGLE_CLIENT_ID and GOOGLE_CLIENT_SECRET environment variables.'',
            Info_dev_hint],
      params_cleared = False, ending = Returned\<rparr>"
  using main_config_error [of "ada_environ(''GOOGLE_CLIENT_SECRET'' \<mapsto> '''')" ada_env "[''code'' \<mapsto> [''4/abc'']]" initial_session]
  by simp

section \<open>Completing the authentication\<close>

text \<open>
  C1. Under a complete configuration, for every session that is not signed in and
  every request carrying a non-empty code: when the token exchange succeeds and the
  profile fetch succeeds (\<open>get_user_info\<close> returns a non-empty value, as every profile
  with an id is), \<open>main\<close> makes one exchange call and one user-info call, stores the
  fetched profile and the credentials, marks the session signed in, clears the query
  parameters and asks for a rerun; the session is then signed in, and no later run of
  \<open>main\<close> (the rerun included) changes it or calls out again, so the transition
  happens once. In particular, with access token \<open>tok123\<close>, refresh token \<open>ref456\<close>
  and Ada's profile, the final session holds exactly that profile and credentials with
  these two tokens.
\<close>

theorem main_success_authenticates:
  "(\<forall>environ e query_params s code creds info.
      truthy_str (CLIENT_ID environ) \<and> truthy_str (CLIENT_SECRET environ)
      \<and> \<not> authenticated s
      \<and> code_param query_params = Inr (Some code) \<and> code \<noteq> []
      \<and> exchange_code_for_token environ e code = Inr creds
      \<and> get_user_info e creds = Inr info \<and> truthy info
      \<longrightarrow>
      main environ e query_params s =
        \<lparr>session = s\<lparr>user_info := info, is_authenticated := True,
                      credentials := CredDict (credentials_dict creds)\<rparr>,
         calls = [TokenExchange code, UserInfoGet (token creds)],
         ui = [Title ''Streamlit Google Authentication'',
               Spinner ''Completing authentication...''],
         params_cleared = True, ending = Rerun\<rparr>
      \<and> authenticated (session (main environ e query_params s))
      \<and> user_info (session (main environ e query_params s)) = info
      \<and> (\<forall>e' query_params'.
            session (main environ e' query_params' (session (main environ e query_params s)))
              = session (main environ e query_params s)
            \<and> calls (main environ e' query_params' (session (main environ e query_params s)))
              = []))
   \<and> session (main ada_environ ada_env [''code'' \<mapsto> [''4/abc'']] initial_session) =
       \<lparr>user_info = JObj [(''id'', JStr ''42''), (''name'', JStr ''Ada''),
                          (''email'', JStr ''a@x.com'')],
        is_authenticated = True,
        credentials = CredDict
          [(''token'', CStr ''tok123''),
           (''refresh_token'', CStr ''ref456''),
           (''token_uri'', CStr ''https://oauth2.googleapis.com/token''),
           (''client_id'', CStr ''cid''),
           (''client_secret'', CStr ''sec''),
           (''scopes'', CList [''openid'', ''https://www.googleapis.com/auth/userinfo.email'',
                               ''https://www.googleapis.com/auth/userinfo.profile''])]\<rparr>"
proof (intro conjI allI impI)
  fix environ e query_params s code creds info
  assume h: "truthy_str (CLIENT_ID environ) \<and> truthy_str (CLIENT_SECRET environ)
      \<and> \<not> authenticated s
      \<and> code_param query_params = Inr (Some code) \<and> code \<noteq> []
      \<and> exchange_code_for_token environ e code = Inr creds
      \<and> get_user_info e creds = Inr info \<and> truthy info"
  then show m: "main environ e query_params s =
        \<lparr>session = s\<lparr>user_info := info, is_authenticated := True,
                      credentials := CredDict (credentials_dict creds)\<rparr>,
         calls = [TokenExchange code, UserInfoGet (token creds)],
         ui = [Title ''Streamlit Google Authentication'',
               Spinner ''Completing authentication...''],
         params_cleared = True, ending = Rerun\<rparr>"
    by (simp add: main_exchanging complete_authentication_success)
  from h show a: "authenticated (session (main environ e query_params s))"
    unfolding m by (simp add: authenticated_def)
  show "user_info (session (main environ e query_params s)) = info"
    unfolding m by simp
  fix e' query_params'
  from a show "session (main environ e' query_params' (session (main environ e query_params s)))
              = session (main environ e query_params s)"
    by (simp add: main_authenticated_session)
  from a show "calls (main environ e' query_params' (session (main environ e query_params s))) = []"
    by (simp add: main_authenticated_session)
next
  have x: "exchange_code_for_token ada_environ ada_env ''4/abc'' = Inr ada_credentials"
    by (simp add: exchange_code_for_token_def ada_env_def)
  have y: "get_user_info ada_env ada_credentials = Inr ada_profile"
    by (simp add: get_user_info_def ada_env_def ada_credentials_def)
  have z: "truthy ada_profile"
    by (simp add: ada_profile_def)
  have "main ada_environ ada_env [''code'' \<mapsto> [''4/abc'']] initial_session =
     (complete_authentication ada_environ ada_env ''4/abc'' initial_session)
       \<lparr>ui := Title ''Streamlit Google Authentication''
               # ui (complete_authentication ada_environ ada_env ''4/abc'' initial_session)\<rparr>"
    by (rule main_exchanging) (simp_all add: ada_config initial_unauthenticated code_param_single)
  then show "session (main ada_environ ada_env [''code'' \<mapsto> [''4/abc'']] initial_session) =
       \<lparr>user_info = JObj [(''id'', JStr ''42''), (''name'', JStr ''Ada''),
                          (''email'', JStr ''a@x.com'')],
        is_authenticated = True,
        credentials = CredDict
          [(''token'', CStr ''tok123''),
           (''refresh_token'', CStr ''ref456''),
           (''token_uri'', CStr ''https://oauth2.googleapis.com/token''),
           (''client_id'', CStr ''cid''),
           (''client_secret'', CStr ''sec''),
           (''scopes'', CList [''openid'', ''https://www.googleapis.com/auth/userinfo.email'',
                               ''https://www.googleapis.com/auth/userinfo.profile''])]\<rparr>"
    by (simp add: complete_authentication_success [OF x y z] initial_session_def
        credentials_dict_def ada_credentials_def ada_profile_def SCOPES_def)
qed

theorem main_success_authenticates_witness:
  "main ada_environ ada_env [''code'' \<mapsto> [''4/abc'']] (sign_out initial_session) =
     \<lparr>session = \<lparr>user_info = ada_profile, is_authenticated = True,
                  credentials = CredDict (credentials_dict ada_credentials)\<rparr>,
      calls = [TokenExchange ''4/abc'', UserInfoGet ''tok123''],
      ui = [Title ''Streamlit Google Authentication'',
            Spinner ''Completing authentication...''],
      params_cleared = True, ending = Rerun\<rparr>
   \<and> authenticated (session (main ada_environ ada_env [''code'' \<mapsto> [''4/abc'']]
                               (sign_out initial_session)))"
proof -
  have h: "truthy_str (CLIENT_ID ada_environ) \<and> truthy_str (CLIENT_SECRET ada_environ)
      \<and> \<not> authenticated (sign_out initial_session)
      \<and> code_param [''code'' \<mapsto> [''4/abc'']] = Inr (Some ''4/abc'') \<and> ''4/abc'' \<noteq> []
      \<and> exchange_code_for_token ada_environ ada_env ''4/abc'' = Inr ada_credentials
      \<and> get_user_info ada_env ada_credentials = Inr ada_profile \<and> truthy ada_profile"
    by (simp add: ada_config signed_out_unauthenticated code_param_single ada_exchange
        ada_fetch ada_profile_truthy)
  note general = main_success_authenticates [THEN conjunct1, rule_format]
  from general [OF h] show ?thesis
    by (simp add: sign_out_def initial_session_def ada_credentials_def authenticated_def
        ada_profile_truthy)
qed

section \<open>Failures leave the session alone\<close>

text \<open>
  C2. For every session that is not signed in and every request carrying a code: if
  the token exchange raises, \<open>main\<close> returns with the session exactly as it was (so
  still not signed in, no field touched) and the user-info endpoint is never called;
  if the exchange succeeds and the profile fetch fails (it raises, or it returns
  \<open>None\<close> or another empty value), \<open>main\<close> returns with the session exactly as it was.
\<close>

theorem main_failure_keeps_session:
  assumes "\<not> authenticated s" and "code_param query_params = Inr (Some code)"
  shows "(exchange_code_for_token environ e code = Inl err \<longrightarrow>
            session (main environ e query_params s) = s
            \<and> ending (main environ e query_params s) = Returned
            \<and> (\<forall>t. UserInfoGet t \<notin> set (calls (main environ e query_params s))))
         \<and> (exchange_code_for_token environ e code = Inr creds
              \<and> (get_user_info e creds = Inl err
                   \<or> (\<exists>info. get_user_info e creds = Inr info \<and> \<not> truthy info)) \<longrightarrow>
            session (main environ e query_params s) = s
            \<and> ending (main environ e query_params s) = Returned)"
proof (cases "truthy_str (CLIENT_ID environ) \<and> truthy_str (CLIENT_SECRET environ)")
  case False
  then show ?thesis
    by (auto simp add: main_def Let_def config_error_page_def)
next
  case cfg: True
  show ?thesis
  proof (cases "code = []")
    case True
    with cfg assms login_page_ok [of environ e s] show ?thesis
      by (auto simp add: main_login)
  next
    case False
    with cfg assms have m: "main environ e query_params s =
       (complete_authentication environ e code s)
         \<lparr>ui := Title ''Streamlit Google Authentication''
                 # ui (complete_authentication environ e code s)\<rparr>"
      by (simp add: main_exchanging)
    show ?thesis
      unfolding m
      by (auto simp add: complete_authentication_exchange_failed
          complete_authentication_fetch_raised complete_authentication_fetch_empty)
  qed
qed

theorem main_failure_keeps_session_witness:
  "(session (main ada_environ ada_env [''code'' \<mapsto> [''stale'']] initial_session) = initial_session
    \<and> ending (main ada_environ ada_env [''code'' \<mapsto> [''stale'']] initial_session) = Returned
    \<and> (\<forall>t. UserInfoGet t \<notin> set (calls (main ada_environ ada_env [''code'' \<mapsto> [''stale'']] initial_session))))
   \<and> session (main ada_environ failing_fetch_env [''code'' \<mapsto> [''4/abc'']] initial_session) = initial_session
   \<and> ending (main ada_environ failing_fetch_env [''code'' \<mapsto> [''4/abc'']] initial_session) = Returned"
proof -
  have x: "exchange_code_for_token ada_environ ada_env ''stale'' = Inl (External ''invalid_grant'')"
    by (simp add: exchange_code_for_token_def ada_env_def)
  have y: "exchange_code_for_token ada_environ failing_fetch_env ''4/abc'' = Inr ada_credentials"
    by (simp add: exchange_code_for_token_def failing_fetch_env_def ada_env_def)
  have z: "get_user_info failing_fetch_env ada_credentials = Inr JNull"
    by (simp add: get_user_info_def failing_fetch_env_def ada_env_def)
  from main_failure_keeps_session [OF initial_unauthenticated code_param_single,
      where environ = ada_environ and e = ada_env and err = "External ''invalid_grant''"
        and creds = ada_credentials] x
    main_failure_keeps_session [OF initial_unauthenticated code_param_single,
      where environ = ada_environ and e = failing_fetch_env
        and err = "External ''invalid_grant''" and creds = ada_credentials] y z
  show ?thesis by simp
qed

section \<open>What counts as a profile\<close>

text \<open>
  C10. Under a complete configuration, for a session that is not signed in, a request
  with a non-empty code and a successful token exchange, let the user-info endpoint
  answer \<open>200\<close>. If the body is the empty object, \<open>main\<close> reports the failed profile
  fetch and the session stays as it was, not signed in. If the body is any object with
  at least one member, whatever its keys (an \<open>id\<close> is not required), the object is
  stored as it is and the session is signed in.
\<close>

theorem empty_profile_rejected_any_other_accepted:
  assumes "truthy_str (CLIENT_ID environ)" and "truthy_str (CLIENT_SECRET environ)"
    and "\<not> authenticated s"
    and "code_param query_params = Inr (Some code)" and "code \<noteq> []"
    and "exchange_code_for_token environ e code = Inr creds"
    and "requests_get e ''https://www.googleapis.com/oauth2/v2/userinfo''
           (''Bearer '' @ token creds) = Inr resp"
    and "status_code resp = 200"
  shows "(json resp = Inr (JObj []) \<longrightarrow>
            main environ e query_params s =
              \<lparr>session = s, calls = [TokenExchange code, UserInfoGet (token creds)],
               ui = [Title ''Streamlit Google Authentication'',
                     Spinner ''Completing authentication...'',
                     Error ''Failed to get user information.''],
               params_cleared = False, ending = Returned\<rparr>
            \<and> \<not> authenticated (session (main environ e query_params s)))
       \<and> (\<forall>members. members \<noteq> [] \<and> json resp = Inr (JObj members) \<longrightarrow>
            session (main environ e query_params s) =
              s\<lparr>user_info := JObj members, is_authenticated := True,
                 credentials := CredDict (credentials_dict creds)\<rparr>
            \<and> authenticated (session (main environ e query_params s)))"
proof -
  have m: "main environ e query_params s =
     (complete_authentication environ e code s)
       \<lparr>ui := Title ''Streamlit Google Authentication''
               # ui (complete_authentication environ e code s)\<rparr>"
    using assms by (simp add: main_exchanging)
  have g: "get_user_info e creds = json resp"
    using assms by (simp add: get_user_info_def)
  show ?thesis
  proof (intro conjI allI impI)
    assume "json resp = Inr (JObj [])"
    with g have "get_user_info e creds = Inr (JObj [])" by simp
    from complete_authentication_fetch_empty [OF assms(6) this, of s]
    show r: "main environ e query_params s =
              \<lparr>session = s, calls = [TokenExchange code, UserInfoGet (token creds)],
               ui = [Title ''Streamlit Google Authentication'',
                     Spinner ''Completing authentication...'',
                     Error ''Failed to get user information.''],
               params_cleared = False, ending = Returned\<rparr>"
      unfolding m by simp
    from assms(3) show "\<not> authenticated (session (main environ e query_params s))"
      unfolding r by simp
  next
    fix members :: "(string \<times> json) list"
    assume "members \<noteq> [] \<and> json resp = Inr (JObj members)"
    with g have "get_user_info e creds = Inr (JObj members)" "truthy (JObj members)" by simp_all
    from complete_authentication_success [OF assms(6) this, of s]
    show r: "session (main environ e query_params s) =
              s\<lparr>user_info := JObj members, is_authenticated := True,
                 credentials := CredDict (credentials_dict creds)\<rparr>"
      unfolding m by simp
    from \<open>truthy (JObj members)\<close> show "authenticated (session (main environ e query_params s))"
      unfolding r by (simp add: authenticated_def)
  qed
qed

theorem empty_profile_rejected_any_other_accepted_witness:
  "main ada_environ empty_profile_env [''code'' \<mapsto> [''4/abc'']] initial_session =
     \<lparr>session = initial_session, calls = [TokenExchange ''4/abc'', UserInfoGet ''tok123''],
      ui = [Title ''Streamlit Google Authentication'',
            Spinner ''Completing authentication...'',
            Error ''Failed to get user information.''],
      params_cleared = False, ending = Returned\<rparr>
   \<and> session (main ada_environ nameless_id_env [''code'' \<mapsto> [''4/abc'']] initial_session) =
       \<lparr>user_info = JObj [(''name'', JStr ''Ada'')], is_authenticated = True,
        credentials = CredDict (credentials_dict ada_credentials)\<rparr>
   \<and> authenticated
        (session (main ada_environ nameless_id_env [''code'' \<mapsto> [''4/abc'']] initial_session))"
proof -
  have x1: "exchange_code_for_token ada_environ empty_profile_env ''4/abc'' = Inr ada_credentials"
    by (simp add: exchange_code_for_token_def empty_profile_env_def ada_env_def)
  have x2: "exchange_code_for_token ada_environ nameless_id_env ''4/abc'' = Inr ada_credentials"
    by (simp add: exchange_code_for_token_def nameless_id_env_def ada_env_def)
  have r1: "requests_get empty_profile_env ''https://www.googleapis.com/oauth2/v2/userinfo''
           (''Bearer '' @ token ada_credentials) = Inr \<lparr>status_code = 200, json = Inr (JObj [])\<rparr>"
    by (simp add: empty_profile_env_def)
  have r2: "requests_get nameless_id_env ''https://www.googleapis.com/oauth2/v2/userinfo''
           (''Bearer '' @ token ada_credentials) =
             Inr \<lparr>status_code = 200, json = Inr (JObj [(''name'', JStr ''Ada'')])\<rparr>"
    by (simp add: nameless_id_env_def)
  have ne: "''4/abc'' \<noteq> []" by simp
  from empty_profile_rejected_any_other_accepted
         [OF ada_config initial_unauthenticated code_param_single ne x1 r1]
       empty_profile_rejected_any_other_accepted
         [OF ada_config initial_unauthenticated code_param_single ne x2 r2]
  show ?thesis
    by (simp add: initial_session_def ada_credentials_def authenticated_def)
qed

section \<open>An empty code\<close>

text \<open>
  C9. A request whose \<open>code\<close> parameter is present and empty is handled exactly as
  the same request without the parameter: the two runs of \<open>main\<close> are equal in
  every component, and for a session that is not signed in under a complete
  configuration the run shows the login prompt and touches nothing. For every request
  whatsoever, \<open>main\<close> never attempts a token exchange with the empty code.
\<close>

theorem empty_code_is_no_code:
  "(query_params ''code'' = Some ([] # rest) \<longrightarrow>
      main environ e query_params s = main environ e (query_params(''code'' := None)) s
      \<and> (truthy_str (CLIENT_ID environ) \<and> truthy_str (CLIENT_SECRET environ)
           \<and> \<not> authenticated s \<longrightarrow>
          (\<exists>url. main environ e query_params s =
             \<lparr>session = s, calls = [],
              ui = [Title ''Streamlit Google Authentication'',
                    Write ''### Please sign in to continue'', Markdown_sign_in_blurb,
                    Markdown_login_button url,
                    Write ''You will be redirected to Google for authentication.''],
              params_cleared = False, ending = Returned\<rparr>)))
   \<and> TokenExchange [] \<notin> set (calls (main environ e query_params s))"
proof (intro conjI impI)
  assume c: "query_params ''code'' = Some ([] # rest)"
  show "main environ e query_params s = main environ e (query_params(''code'' := None)) s"
    using c by (simp add: main_def code_param_def)
  assume "truthy_str (CLIENT_ID environ) \<and> truthy_str (CLIENT_SECRET environ)
           \<and> \<not> authenticated s"
  then have cfg: "truthy_str (CLIENT_ID environ)" "truthy_str (CLIENT_SECRET environ)"
    and un: "\<not> authenticated s" by simp_all
  from login_page_ok [OF cfg(1), of e s] obtain url where
    "login_page environ e s =
          \<lparr>session = s, calls = [],
           ui = [Write ''### Please sign in to continue'', Markdown_sign_in_blurb,
                 Markdown_login_button url,
                 Write ''You will be redirected to Google for authentication.''],
           params_cleared = False, ending = Returned\<rparr>" by blast
  then show "\<exists>url. main environ e query_params s =
             \<lparr>session = s, calls = [],
              ui = [Title ''Streamlit Google Authentication'',
                    Write ''### Please sign in to continue'', Markdown_sign_in_blurb,
                    Markdown_login_button url,
                    Write ''You will be redirected to Google for authentication.''],
              params_cleared = False, ending = Returned\<rparr>"
    using c by (simp add: main_login [OF cfg un] code_param_def)
next
  show "TokenExchange [] \<notin> set (calls (main environ e query_params s))"
    by (rule main_never_exchanges_empty_code)
qed

theorem empty_code_is_no_code_witness:
  "main ada_environ ada_env [''code'' \<mapsto> ['''']] initial_session
     = main ada_environ ada_env Map.empty initial_session
   \<and> (\<exists>url. main ada_environ ada_env [''code'' \<mapsto> ['''']] initial_session =
             \<lparr>session = initial_session, calls = [],
              ui = [Title ''Streamlit Google Authentication'',
                    Write ''### Please sign in to continue'', Markdown_sign_in_blurb,
                    Markdown_login_button url,
                    Write ''You will be redirected to Google for authentication.''],
              params_cleared = False, ending = Returned\<rparr>)"
proof -
  have c: "[''code'' \<mapsto> ['''']] ''code'' = Some ([] # [])" by simp
  have d: "[''code'' \<mapsto> ['''']](''code'' := None) = (Map.empty :: query_params)" by simp
  note inst = empty_code_is_no_code
      [of "[''code'' \<mapsto> ['''']]" "[]" ada_environ ada_env initial_session,
       THEN conjunct1, rule_format, OF c]
  from inst have same: "main ada_environ ada_env [''code'' \<mapsto> ['''']] initial_session
     = main ada_environ ada_env Map.empty initial_session"
    by simp
  from inst have prompt: "\<exists>url. main ada_environ ada_env [''code'' \<mapsto> ['''']] initial_session =
             \<lparr>session = initial_session, calls = [],
              ui = [Title ''Streamlit Google Authentication'',
                    Write ''### Please sign in to continue'', Markdown_sign_in_blurb,
                    Markdown_login_button url,
                    Write ''You will be redirected to Google for authentication.''],
              params_cleared = False, ending = Returned\<rparr>"
    using ada_config initial_unauthenticated by blast
  from same prompt show ?thesis by (rule conjI)
qed

section \<open>The session over any sequence of operations\<close>

text \<open>
  C3. Start from the initial session and apply any sequence of runs of \<open>main\<close>
  (each under any configuration, any answers of the outside world, any request) and
  \<open>sign_out\<close>. In the session reached, if \<open>is_authenticated\<close> is set then the
  profile is a non-empty value and the credentials are a non-empty dict. Moreover, from
  any session whatsoever: an operation that takes a session that is not signed in to one
  that is signed in is a run of \<open>main\<close> whose request carried a code, whose token
  exchange succeeded and whose profile fetch then returned a non-empty value, these two
  calls being the run's calls, in this order; and an operation that takes a signed-in
  session to one that is not signed in is \<open>sign_out\<close>.
\<close>

theorem session_invariant_and_transitions:
  "(is_authenticated (run_ops ops) \<longrightarrow>
      truthy (user_info (run_ops ops))
      \<and> (\<exists>d. credentials (run_ops ops) = CredDict d \<and> d \<noteq> []))
   \<and> (\<forall>s op. \<not> authenticated s \<and> authenticated (apply_op s op) \<longrightarrow>
         (\<exists>environ e query_params code creds info.
            op = Main environ e query_params
            \<and> code_param query_params = Inr (Some code)
            \<and> exchange_code_for_token environ e code = Inr creds
            \<and> get_user_info e creds = Inr info \<and> truthy info
            \<and> calls (main environ e query_params s)
                = [TokenExchange code, UserInfoGet (token creds)]))
   \<and> (\<forall>s op. authenticated s \<and> \<not> authenticated (apply_op s op) \<longrightarrow> op = SignOut)"
proof -
  have "is_authenticated initial_session \<longrightarrow>
             truthy (user_info initial_session)
             \<and> (\<exists>d. credentials initial_session = CredDict d \<and> d \<noteq> [])"
    by (simp add: initial_session_def)
  from foldl_apply_op_keeps_invariant [OF this, of ops]
  have inv: "is_authenticated (run_ops ops) \<longrightarrow>
      truthy (user_info (run_ops ops))
      \<and> (\<exists>d. credentials (run_ops ops) = CredDict d \<and> d \<noteq> [])"
    by (simp add: run_ops_def)
  have sign_in: "\<exists>environ e query_params code creds info.
            op = Main environ e query_params
            \<and> code_param query_params = Inr (Some code)
            \<and> exchange_code_for_token environ e code = Inr creds
            \<and> get_user_info e creds = Inr info \<and> truthy info
            \<and> calls (main environ e query_params s)
                = [TokenExchange code, UserInfoGet (token creds)]"
    if h: "\<not> authenticated s \<and> authenticated (apply_op s op)" for s op
  proof (cases op)
    case SignOut
    with h show ?thesis by (simp add: sign_out_def authenticated_def)
  next
    case (Main environ e query_params)
    with h have "session (main environ e query_params s) \<noteq> s" by auto
    from main_session_changed [OF this] obtain code creds info where
      "code_param query_params = Inr (Some code)"
      "exchange_code_for_token environ e code = Inr creds"
      "get_user_info e creds = Inr info" "truthy info"
      "main environ e query_params s =
        \<lparr>session = s\<lparr>user_info := info, is_authenticated := True,
                      credentials := CredDict (credentials_dict creds)\<rparr>,
         calls = [TokenExchange code, UserInfoGet (token creds)],
         ui = [Title ''Streamlit Google Authentication'',
               Spinner ''Completing authentication...''],
         params_cleared = True, ending = Rerun\<rparr>"
      by blast
    with Main show ?thesis by simp
  qed
  have sign_off: "op = SignOut"
    if h: "authenticated s \<and> \<not> authenticated (apply_op s op)" for s op
  proof (cases op)
    case SignOut
    then show ?thesis .
  next
    case (Main environ e query_params)
    with h main_authenticated_session [of s environ e query_params] show ?thesis by simp
  qed
  from inv sign_in sign_off show ?thesis by blast
qed

theorem session_invariant_and_transitions_witness:
  "is_authenticated (run_ops [Main ada_environ ada_env [''code'' \<mapsto> [''4/abc'']]])
   \<and> truthy (user_info (run_ops [Main ada_environ ada_env [''code'' \<mapsto> [''4/abc'']]]))
   \<and> (\<exists>d. credentials (run_ops [Main ada_environ ada_env [''code'' \<mapsto> [''4/abc'']]])
             = CredDict d \<and> d \<noteq> [])
   \<and> \<not> authenticated initial_session
   \<and> authenticated (apply_op initial_session
                       (Main ada_environ ada_env [''code'' \<mapsto> [''4/abc'']]))
   \<and> (\<exists>code creds info.
          code_param [''code'' \<mapsto> [''4/abc'']] = Inr (Some code)
          \<and> exchange_code_for_token ada_environ ada_env code = Inr creds
          \<and> get_user_info ada_env creds = Inr info \<and> truthy info
          \<and> calls (main ada_environ ada_env [''code'' \<mapsto> [''4/abc'']] initial_session)
              = [TokenExchange code, UserInfoGet (token creds)])
   \<and> authenticated (run_ops [Main ada_environ ada_env [''code'' \<mapsto> [''4/abc'']]])
   \<and> \<not> authenticated (apply_op (run_ops [Main ada_environ ada_env [''code'' \<mapsto> [''4/abc'']]])
                           SignOut)"
proof -
  let ?op = "Main ada_environ ada_env [''code'' \<mapsto> [''4/abc'']]"
  note inst = session_invariant_and_transitions [of "[?op]"]
  have flag: "is_authenticated (run_ops [?op])"
    by (simp add: run_ops_def ada_sign_in)
  have before: "\<not> authenticated initial_session"
    by (rule initial_unauthenticated)
  have after: "authenticated (apply_op initial_session ?op)"
    by (simp add: ada_sign_in ada_signed_in)
  have after': "authenticated (run_ops [?op])"
    using after by (simp add: run_ops_def)
  have off: "\<not> authenticated (apply_op (run_ops [?op]) SignOut)"
    by (simp add: signed_out_unauthenticated)
  from inst flag have inv: "truthy (user_info (run_ops [?op]))
     \<and> (\<exists>d. credentials (run_ops [?op]) = CredDict d \<and> d \<noteq> [])"
    by blast
  from inst before after have "\<exists>environ e query_params code creds info.
            ?op = Main environ e query_params
            \<and> code_param query_params = Inr (Some code)
            \<and> exchange_code_for_token environ e code = Inr creds
            \<and> get_user_info e creds = Inr info \<and> truthy info
            \<and> calls (main environ e query_params initial_session)
                = [TokenExchange code, UserInfoGet (token creds)]"
    by blast
  then have pair: "\<exists>code creds info.
          code_param [''code'' \<mapsto> [''4/abc'']] = Inr (Some code)
          \<and> exchange_code_for_token ada_environ ada_env code = Inr creds
          \<and> get_user_info ada_env creds = Inr info \<and> truthy info
          \<and> calls (main ada_environ ada_env [''code'' \<mapsto> [''4/abc'']] initial_session)
              = [TokenExchange code, UserInfoGet (token creds)]"
    by (simp only: op.inject) blast
  from flag inv before after pair after' off show ?thesis by blast
qed

section \<open>Fetching the profile\<close>

text \<open>
  C4, as the specification states it, fails on the code: when the user-info endpoint
  answers \<open>200\<close> with a body that is not JSON, \<open>response.json()\<close> raises and the
  exception leaves \<open>get_user_info\<close>; \<open>main\<close> then shows the generic authentication
  error, not the failed-profile-fetch error that a non-\<open>200\<close> answer produces.
\<close>

theorem get_user_info_malformed_body_counterexample:
  "requests_get malformed_body_env ''https://www.googleapis.com/oauth2/v2/userinfo''
      (''Bearer '' @ token ada_credentials)
     = Inr \<lparr>status_code = 200, json = Inl (External ''Expecting value'')\<rparr>
   \<and> get_user_info malformed_body_env ada_credentials = Inl (External ''Expecting value'')
   \<and> ui (main ada_environ malformed_body_env [''code'' \<mapsto> [''4/abc'']] initial_session)
       = [Title ''Streamlit Google Authentication'',
          Spinner ''Completing authentication...'',
          Error ''Authentication error: Expecting value'']
   \<and> Error ''Failed to get user information.''
         \<notin> set (ui (main ada_environ malformed_body_env [''code'' \<mapsto> [''4/abc'']]
                          initial_session))"
proof -
  have r: "requests_get malformed_body_env ''https://www.googleapis.com/oauth2/v2/userinfo''
      (''Bearer '' @ token ada_credentials)
     = Inr \<lparr>status_code = 200, json = Inl (External ''Expecting value'')\<rparr>"
    by (simp add: malformed_body_env_def)
  then have g: "get_user_info malformed_body_env ada_credentials = Inl (External ''Expecting value'')"
    by (simp add: get_user_info_def)
  have x: "exchange_code_for_token ada_environ malformed_body_env ''4/abc'' = Inr ada_credentials"
    by (simp add: exchange_code_for_token_def malformed_body_env_def ada_env_def)
  have "main ada_environ malformed_body_env [''code'' \<mapsto> [''4/abc'']] initial_session =
     (complete_authentication ada_environ malformed_body_env ''4/abc'' initial_session)
       \<lparr>ui := Title ''Streamlit Google Authentication''
               # ui (complete_authentication ada_environ malformed_body_env ''4/abc''
                      initial_session)\<rparr>"
    by (rule main_exchanging) (simp_all add: ada_config initial_unauthenticated code_param_single)
  then have u: "ui (main ada_environ malformed_body_env [''code'' \<mapsto> [''4/abc'']] initial_session)
       = [Title ''Streamlit Google Authentication'',
          Spinner ''Completing authentication...'',
          Error ''Authentication error: Expecting value'']"
    by (simp add: complete_authentication_fetch_raised [OF x g])
  have "Error ''Failed to get user information.''
         \<notin> set (ui (main ada_environ malformed_body_env [''code'' \<mapsto> [''4/abc'']]
                          initial_session))"
    unfolding u by simp
  with r g u show ?thesis by blast
qed

text \<open>
  C4, amended. Let the HTTP request itself return a response. On status \<open>200\<close>,
  \<open>get_user_info\<close> does whatever \<open>response.json()\<close> does: it returns the parsed
  body, or the parse error escapes it. On any other status it returns \<open>None\<close>. In a
  run of \<open>main\<close> that reaches the fetch, a status other than \<open>200\<close> is reported as
  the failed profile fetch and a parse error on a \<open>200\<close> is caught and reported as
  an authentication error carrying the exception's text; in both cases \<open>main\<close>
  returns and the session is as it was.
\<close>

theorem get_user_info_outcomes:
  assumes "requests_get e ''https://www.googleapis.com/oauth2/v2/userinfo''
             (''Bearer '' @ token creds) = Inr resp"
  shows "(status_code resp = 200 \<longrightarrow> get_user_info e creds = json resp)
       \<and> (status_code resp \<noteq> 200 \<longrightarrow> get_user_info e creds = Inr JNull)
       \<and> (truthy_str (CLIENT_ID environ) \<and> truthy_str (CLIENT_SECRET environ)
            \<and> \<not> authenticated s
            \<and> code_param query_params = Inr (Some code) \<and> code \<noteq> []
            \<and> exchange_code_for_token environ e code = Inr creds \<longrightarrow>
          (status_code resp \<noteq> 200 \<longrightarrow>
             main environ e query_params s =
               \<lparr>session = s, calls = [TokenExchange code, UserInfoGet (token creds)],
                ui = [Title ''Streamlit Google Authentication'',
                      Spinner ''Completing authentication...'',
                      Error ''Failed to get user information.''],
                params_cleared = False, ending = Returned\<rparr>)
          \<and> (\<forall>err. status_code resp = 200 \<and> json resp = Inl err \<longrightarrow>
             main environ e query_params s =
               \<lparr>session = s, calls = [TokenExchange code, UserInfoGet (token creds)],
                ui = [Title ''Streamlit Google Authentication'',
                      Spinner ''Completing authentication...'',
                      Error (''Authentication error: '' @ str_exn err)],
                params_cleared = False, ending = Returned\<rparr>))"
proof -
  have ok: "get_user_info e creds = json resp" if "status_code resp = 200"
    using assms that by (simp add: get_user_info_def)
  have bad: "get_user_info e creds = Inr JNull" if "status_code resp \<noteq> 200"
    using assms that by (simp add: get_user_info_def)
  have run: "(status_code resp \<noteq> 200 \<longrightarrow>
             main environ e query_params s =
               \<lparr>session = s, calls = [TokenExchange code, UserInfoGet (token creds)],
                ui = [Title ''Streamlit Google Authentication'',
                      Spinner ''Completing authentication...'',
                      Error ''Failed to get user information.''],
                params_cleared = False, ending = Returned\<rparr>)
          \<and> (\<forall>err. status_code resp = 200 \<and> json resp = Inl err \<longrightarrow>
             main environ e query_params s =
               \<lparr>session = s, calls = [TokenExchange code, UserInfoGet (token creds)],
                ui = [Title ''Streamlit Google Authentication'',
                      Spinner ''Completing authentication...'',
                      Error (''Authentication error: '' @ str_exn err)],
                params_cleared = False, ending = Returned\<rparr>)"
    if h: "truthy_str (CLIENT_ID environ) \<and> truthy_str (CLIENT_SECRET environ)
            \<and> \<not> authenticated s
            \<and> code_param query_params = Inr (Some code) \<and> code \<noteq> []
            \<and> exchange_code_for_token environ e code = Inr creds"
  proof -
    from h have m: "main environ e query_params s =
       (complete_authentication environ e code s)
         \<lparr>ui := Title ''Streamlit Google Authentication''
                 # ui (complete_authentication environ e code s)\<rparr>"
      by (simp add: main_exchanging)
    from h have x: "exchange_code_for_token environ e code = Inr creds" by simp
    show ?thesis
    proof (intro conjI allI impI)
      assume "status_code resp \<noteq> 200"
      from complete_authentication_fetch_empty [OF x bad [OF this], of s]
      show "main environ e query_params s =
               \<lparr>session = s, calls = [TokenExchange code, UserInfoGet (token creds)],
                ui = [Title ''Streamlit Google Authentication'',
                      Spinner ''Completing authentication...'',
                      Error ''Failed to get user information.''],
                params_cleared = False, ending = Returned\<rparr>"
        unfolding m by simp
    next
      fix err
      assume a: "status_code resp = 200 \<and> json resp = Inl err"
      with ok have "get_user_info e creds = Inl err" by simp
      from complete_authentication_fetch_raised [OF x this, of s]
      show "main environ e query_params s =
               \<lparr>session = s, calls = [TokenExchange code, UserInfoGet (token creds)],
                ui = [Title ''Streamlit Google Authentication'',
                      Spinner ''Completing authentication...'',
                      Error (''Authentication error: '' @ str_exn err)],
                params_cleared = False, ending = Returned\<rparr>"
        unfolding m by simp
    qed
  qed
  from ok bad run show ?thesis by blast
qed

theorem get_user_info_outcomes_witness:
  "get_user_info failing_fetch_env ada_credentials = Inr JNull
   \<and> main ada_environ failing_fetch_env [''code'' \<mapsto> [''4/abc'']] initial_session =
       \<lparr>session = initial_session,
        calls = [TokenExchange ''4/abc'', UserInfoGet ''tok123''],
        ui = [Title ''Streamlit Google Authentication'',
              Spinner ''Completing authentication...'',
              Error ''Failed to get user information.''],
        params_cleared = False, ending = Returned\<rparr>
   \<and> get_user_info malformed_body_env ada_credentials = Inl (External ''Expecting value'')
   \<and> main ada_environ malformed_body_env [''code'' \<mapsto> [''4/abc'']] initial_session =
       \<lparr>session = initial_session,
        calls = [TokenExchange ''4/abc'', UserInfoGet ''tok123''],
        ui = [Title ''Streamlit Google Authentication'',
              Spinner ''Completing authentication...'',
              Error ''Authentication error: Expecting value''],
        params_cleared = False, ending = Returned\<rparr>"
proof -
  let ?down = "\<lparr>status_code = 503, json = Inl (External ''Expecting value'')\<rparr>"
  let ?garbled = "\<lparr>status_code = 200, json = Inl (External ''Expecting value'')\<rparr>"
  have r1: "requests_get failing_fetch_env ''https://www.googleapis.com/oauth2/v2/userinfo''
             (''Bearer '' @ token ada_credentials) = Inr ?down"
    by (simp add: failing_fetch_env_def)
  have r2: "requests_get malformed_body_env ''https://www.googleapis.com/oauth2/v2/userinfo''
             (''Bearer '' @ token ada_credentials) = Inr ?garbled"
    by (simp add: malformed_body_env_def)
  have x1: "exchange_code_for_token ada_environ failing_fetch_env ''4/abc'' = Inr ada_credentials"
    by (simp add: exchange_code_for_token_def failing_fetch_env_def ada_env_def)
  have x2: "exchange_code_for_token ada_environ malformed_body_env ''4/abc'' = Inr ada_credentials"
    by (simp add: exchange_code_for_token_def malformed_body_env_def ada_env_def)
  have t: "token ada_credentials = ''tok123''"
    by (simp add: ada_credentials_def)
  note down = get_user_info_outcomes [OF r1, where environ = ada_environ
      and s = initial_session and query_params = "[''code'' \<mapsto> [''4/abc'']]"
      and code = "''4/abc''"]
  note garbled = get_user_info_outcomes [OF r2, where environ = ada_environ
      and s = initial_session and query_params = "[''code'' \<mapsto> [''4/abc'']]"
      and code = "''4/abc''"]
  from down have a: "get_user_info failing_fetch_env ada_credentials = Inr JNull"
    by simp
  from down x1 have b: "main ada_environ failing_fetch_env [''code'' \<mapsto> [''4/abc'']] initial_session =
       \<lparr>session = initial_session,
        calls = [TokenExchange ''4/abc'', UserInfoGet ''tok123''],
        ui = [Title ''Streamlit Google Authentication'',
              Spinner ''Completing authentication...'',
              Error ''Failed to get user information.''],
        params_cleared = False, ending = Returned\<rparr>"
    by (simp add: ada_config initial_unauthenticated code_param_single t)
  from garbled have c: "get_user_info malformed_body_env ada_credentials
      = Inl (External ''Expecting value'')"
    by simp
  from garbled x2 have d: "main ada_environ malformed_body_env [''code'' \<mapsto> [''4/abc'']] initial_session =
       \<lparr>session = initial_session,
        calls = [TokenExchange ''4/abc'', UserInfoGet ''tok123''],
        ui = [Title ''Streamlit Google Authentication'',
              Spinner ''Completing authentication...'',
              Error ''Authentication error: Expecting value''],
        params_cleared = False, ending = Returned\<rparr>"
    by (simp add: ada_config initial_unauthenticated code_param_single t)
  from a b c d show ?thesis by blast
qed

section \<open>The authorization URL\<close>

text \<open>
  C5. For every process configuration with a non-empty client id and a non-empty
  redirect URI, \<open>get_authorization_url\<close> returns the provider's authorization endpoint
  followed by \<open>?\<close> and \<open>&\<close>-joined parameters, among them
  \<open>access_type=offline\<close>, \<open>include_granted_scopes=true\<close>, \<open>prompt=consent\<close>,
  \<open>response_type=code\<close>, the configured client id, the configured redirect URI
  (both URL-escaped) and the \<open>scope\<close> parameter holding all configured scopes joined
  by a space (URL-escaped).
\<close>

theorem authorization_url_parameters:
  assumes "environ ''GOOGLE_CLIENT_ID'' = Some cid" and "cid \<noteq> []"
    and "REDIRECT_URI environ \<noteq> []"
  shows "\<exists>params.
      get_authorization_url environ e
        = Inr (''https://accounts.google.com/o/oauth2/auth'' @ ''?'' @ join ''&'' params)
      \<and> ''access_type=offline'' \<in> set params
      \<and> ''include_granted_scopes=true'' \<in> set params
      \<and> ''prompt=consent'' \<in> set params
      \<and> ''response_type=code'' \<in> set params
      \<and> ''client_id='' @ quote_plus cid \<in> set params
      \<and> ''redirect_uri='' @ quote_plus (REDIRECT_URI environ) \<in> set params
      \<and> ''scope='' @ quote_plus (join '' '' SCOPES) \<in> set params"
proof -
  let ?params = "map encode_param
     [(''response_type'', ''code''), (''client_id'', cid),
      (''redirect_uri'', REDIRECT_URI environ), (''scope'', join '' '' SCOPES),
      (''state'', new_state e), (''access_type'', ''offline''),
      (''include_granted_scopes'', ''true''), (''prompt'', ''consent'')]"
  have url: "get_authorization_url environ e
        = Inr (''https://accounts.google.com/o/oauth2/auth'' @ ''?'' @ join ''&'' ?params)"
    using assms(1,2)
    by (simp add: get_authorization_url_def authorization_url_def create_flow_def
        CLIENT_ID_def urlencode_def)
  have p1: "encode_param (''access_type'', ''offline'') = ''access_type=offline''"
    by (simp add: encode_param_plain unreserved_def)
  have p2: "encode_param (''include_granted_scopes'', ''true'') = ''include_granted_scopes=true''"
    by (simp add: encode_param_plain unreserved_def)
  have p3: "encode_param (''prompt'', ''consent'') = ''prompt=consent''"
    by (simp add: encode_param_plain unreserved_def)
  have p4: "encode_param (''response_type'', ''code'') = ''response_type=code''"
    by (simp add: encode_param_plain unreserved_def)
  have p5: "encode_param (''client_id'', cid) = ''client_id='' @ quote_plus cid"
    by (simp add: encode_param_key unreserved_def)
  have p6: "encode_param (''redirect_uri'', REDIRECT_URI environ)
      = ''redirect_uri='' @ quote_plus (REDIRECT_URI environ)"
    by (simp add: encode_param_key unreserved_def)
  have p7: "encode_param (''scope'', join '' '' SCOPES) = ''scope='' @ quote_plus (join '' '' SCOPES)"
    by (simp add: encode_param_key unreserved_def)
  have "''access_type=offline'' \<in> set ?params"
       "''include_granted_scopes=true'' \<in> set ?params"
       "''prompt=consent'' \<in> set ?params"
       "''response_type=code'' \<in> set ?params"
       "''client_id='' @ quote_plus cid \<in> set ?params"
       "''redirect_uri='' @ quote_plus (REDIRECT_URI environ) \<in> set ?params"
       "''scope='' @ quote_plus (join '' '' SCOPES) \<in> set ?params"
    by (simp_all only: list.map list.set insert_iff p1 p2 p3 p4 p5 p6 p7 simp_thms)
  with url show ?thesis by blast
qed

theorem authorization_url_parameters_witness:
  "\<exists>params.
      get_authorization_url ada_environ ada_env
        = Inr (''https://accounts.google.com/o/oauth2/auth'' @ ''?'' @ join ''&'' params)
      \<and> ''access_type=offline'' \<in> set params
      \<and> ''include_granted_scopes=true'' \<in> set params
      \<and> ''prompt=consent'' \<in> set params
      \<and> ''response_type=code'' \<in> set params
      \<and> ''client_id=cid'' \<in> set params
      \<and> ''redirect_uri=https%3A%2F%2Fyour-app-name.streamlit.app'' \<in> set params
      \<and> ''scope=openid+https%3A%2F%2Fwww.googleapis.com%2Fauth%2Fuserinfo.email+https%3A%2F%2Fwww.googleapis.com%2Fauth%2Fuserinfo.profile''
            \<in> set params"
proof -
  have id: "ada_environ ''GOOGLE_CLIENT_ID'' = Some ''cid''"
    by (simp add: ada_environ_def)
  have ne: "''cid'' \<noteq> []" by simp
  have uri: "REDIRECT_URI ada_environ \<noteq> []"
    by (simp add: ada_redirect_uri)
  from authorization_url_parameters [OF id ne uri, of ada_env]
  show ?thesis
    by (simp add: ada_redirect_uri quote_plus_redirect quote_plus_scopes quote_plus_cid)
qed

section \<open>The state parameter\<close>

text \<open>
  C8, as the specification states it, fails on the code: the state token drawn for an
  authorization URL is not retained. Two runs that differ only in the token drawn
  produce different URLs and leave the very same session behind, and a callback
  carrying a forged \<open>state\<close> is handled exactly as one without it and signs the
  user in.
\<close>

theorem state_token_not_retained_counterexample:
  "get_authorization_url ada_environ (ada_env\<lparr>new_state := ''AAAA''\<rparr>)
     \<noteq> get_authorization_url ada_environ (ada_env\<lparr>new_state := ''BBBB''\<rparr>)
   \<and> session (main ada_environ (ada_env\<lparr>new_state := ''AAAA''\<rparr>) Map.empty initial_session)
       = initial_session
   \<and> session (main ada_environ (ada_env\<lparr>new_state := ''BBBB''\<rparr>) Map.empty initial_session)
       = initial_session
   \<and> main ada_environ ada_env [''code'' \<mapsto> [''4/abc''], ''state'' \<mapsto> [''forged'']]
        initial_session
       = main ada_environ ada_env [''code'' \<mapsto> [''4/abc'']] initial_session
   \<and> authenticated
        (session (main ada_environ ada_env
                    [''code'' \<mapsto> [''4/abc''], ''state'' \<mapsto> [''forged'']] initial_session))"
proof -
  have differ: "get_authorization_url ada_environ (ada_env\<lparr>new_state := ''AAAA''\<rparr>)
     \<noteq> get_authorization_url ada_environ (ada_env\<lparr>new_state := ''BBBB''\<rparr>)"
    by (simp add: get_authorization_url_def authorization_url_def create_flow_def
        CLIENT_ID_def ada_environ_def urlencode_def encode_param_def quote_plus_def
        quote_char_def unreserved_def)
  have none: "code_param Map.empty = Inr None"
    by (simp add: code_param_def)
  have forged: "main ada_environ ada_env [''code'' \<mapsto> [''4/abc''], ''state'' \<mapsto> [''forged'']]
        initial_session
       = main ada_environ ada_env [''code'' \<mapsto> [''4/abc'']] initial_session"
    using main_ignores_state [of ada_environ ada_env "[''code'' \<mapsto> [''4/abc'']]"
        "Some [''forged'']" initial_session]
    by simp
  have "authenticated
        (session (main ada_environ ada_env [''code'' \<mapsto> [''4/abc'']] initial_session))"
    by (simp add: ada_sign_in ada_signed_in)
  with differ forged main_without_code_session [OF none] show ?thesis
    by simp
qed

text \<open>
  C8, amended. For every process configuration with a non-empty client id, the URL
  \<open>get_authorization_url\<close> returns carries a \<open>state\<close> parameter whose value is the
  token the OAuth library drew for that call (URL-escaped); the function returns the
  URL alone, a run of \<open>main\<close> on a request without a code leaves the session as it
  was, and \<open>main\<close> never reads the \<open>state\<close> parameter of a request: its result is
  the same whatever that parameter holds.
\<close>

theorem state_parameter_emitted_and_discarded:
  assumes "environ ''GOOGLE_CLIENT_ID'' = Some cid" and "cid \<noteq> []"
  shows "(\<exists>params.
            get_authorization_url environ e
              = Inr (''https://accounts.google.com/o/oauth2/auth'' @ ''?'' @ join ''&'' params)
            \<and> ''state='' @ quote_plus (new_state e) \<in> set params)
       \<and> (code_param query_params = Inr None \<longrightarrow>
            session (main environ e query_params s) = s)
       \<and> main environ e (query_params(''state'' := v)) s = main environ e query_params s"
proof -
  let ?params = "map encode_param
     [(''response_type'', ''code''), (''client_id'', cid),
      (''redirect_uri'', REDIRECT_URI environ), (''scope'', join '' '' SCOPES),
      (''state'', new_state e), (''access_type'', ''offline''),
      (''include_granted_scopes'', ''true''), (''prompt'', ''consent'')]"
  have url: "get_authorization_url environ e
        = Inr (''https://accounts.google.com/o/oauth2/auth'' @ ''?'' @ join ''&'' ?params)"
    using assms
    by (simp add: get_authorization_url_def authorization_url_def create_flow_def
        CLIENT_ID_def urlencode_def)
  have p: "encode_param (''state'', new_state e) = ''state='' @ quote_plus (new_state e)"
    by (simp add: encode_param_key unreserved_def)
  have "''state='' @ quote_plus (new_state e) \<in> set ?params"
    by (simp only: list.map list.set insert_iff p simp_thms)
  with url have first: "\<exists>params.
            get_authorization_url environ e
              = Inr (''https://accounts.google.com/o/oauth2/auth'' @ ''?'' @ join ''&'' params)
            \<and> ''state='' @ quote_plus (new_state e) \<in> set params"
    by blast
  from first main_without_code_session [of query_params environ e s]
    main_ignores_state [of environ e query_params v s]
  show ?thesis by blast
qed

theorem state_parameter_emitted_and_discarded_witness:
  "(\<exists>params.
      get_authorization_url ada_environ ada_env
        = Inr (''https://accounts.google.com/o/oauth2/auth'' @ ''?'' @ join ''&'' params)
      \<and> ''state=s3cr3t'' \<in> set params)
   \<and> session (main ada_environ ada_env Map.empty initial_session) = initial_session"
proof -
  have id: "ada_environ ''GOOGLE_CLIENT_ID'' = Some ''cid''"
    by (simp add: ada_environ_def)
  have ne: "''cid'' \<noteq> []" by simp
  have none: "code_param Map.empty = Inr None"
    by (simp add: code_param_def)
  have q: "quote_plus (new_state ada_env) = ''s3cr3t''"
    unfolding ada_env_def by code_simp
  note inst = state_parameter_emitted_and_discarded
      [where environ = ada_environ and cid = "''cid''" and e = ada_env
         and query_params = Map.empty and s = initial_session and v = None]
  from inst [OF id ne] none q show ?thesis by simp
qed

end
